theory Spec2Isabelle
  imports Main "HOL-Library.Word" "HOL-Library.Sublist"
begin

unbundle bit_operations_syntax

section \<open>USB CDC ACM to UART bridge with AT command interpreter\<close>

text \<open>
  A shallow embedding of \<^verbatim>\<open>USBD_User_CDC_ACM_UART_0.c\<close>. The module's global
  variables form one record, every function of the module takes the record and returns
  the updated one. Values that come from outside the module (what the USART driver, the
  USB stack, the GPIO input register and the ADC report) are arguments of the function
  that asks for them. Calls into the USART driver are appended to a log, so that what
  has really been sent on the serial line can be told apart from what has only been
  formatted into \<^verbatim>\<open>uart_tx_buf\<close>.
\<close>

subsection \<open>Constants\<close>

text \<open>\<^verbatim>\<open>#define UART_BUFFER_SIZE (512)\<close>, as it enters the \<^verbatim>\<open>int32_t\<close> arithmetic.\<close>

definition UART_BUFFER_SIZE :: "32 word" where
  "UART_BUFFER_SIZE = 512"

definition USB_RECEIVE_BUFFER_SIZE :: nat where
  "USB_RECEIVE_BUFFER_SIZE = 512"

definition CMD_BUFFER_SIZE :: nat where
  "CMD_BUFFER_SIZE = 64"

definition NUL :: char where
  "NUL = CHR 0x00"

definition CR :: char where
  "CR = CHR 0x0D"

definition LF :: char where
  "LF = CHR 0x0A"

text \<open>\<^verbatim>\<open>ARM_DRIVER_OK\<close> of the CMSIS driver interface.\<close>

definition ARM_DRIVER_OK :: "32 word" where
  "ARM_DRIVER_OK = 0"

subsection \<open>Data\<close>

text \<open>
  \<^verbatim>\<open>CDC_LINE_CODING\<close> is declared in the USB middleware header: a 32-bit rate and
  three bytes. The module initialises it with four zeros.
\<close>

record CDC_LINE_CODING =
  dwDTERate :: "32 word"
  bCharFormat :: "8 word"
  bParityType :: "8 word"
  bDataBits :: "8 word"

definition line_coding_zero :: CDC_LINE_CODING where
  "line_coding_zero = \<lparr>dwDTERate = 0, bCharFormat = 0, bParityType = 0, bDataBits = 0\<rparr>"

text \<open>The GPIO lines of \<^verbatim>\<open>main.h\<close>: a port and a pin number.\<close>

datatype gpio_port = GPIOA | GPIOB | GPIOF | GPIOG | GPIOH | GPIOI

type_synonym gpio_line = "gpio_port \<times> nat"

definition LED1 :: gpio_line where "LED1 = (GPIOF, 6)"
definition LED2 :: gpio_line where "LED2 = (GPIOB, 4)"
definition LED3 :: gpio_line where "LED3 = (GPIOG, 7)"
definition LED4 :: gpio_line where "LED4 = (GPIOI, 0)"
definition LED5 :: gpio_line where "LED5 = (GPIOH, 6)"
definition LED6 :: gpio_line where "LED6 = (GPIOI, 3)"
definition LED7 :: gpio_line where "LED7 = (GPIOA, 15)"
definition LED8 :: gpio_line where "LED8 = (GPIOA, 8)"
definition SW1 :: gpio_line where "SW1 = (GPIOF, 10)"
definition SW2 :: gpio_line where "SW2 = (GPIOF, 9)"
definition SW3 :: gpio_line where "SW3 = (GPIOF, 8)"
definition SW4 :: gpio_line where "SW4 = (GPIOF, 7)"

text \<open>
  The requests made to the USART driver through \<^verbatim>\<open>ptrUART\<close>. The control codes are
  constants of the driver header; they are kept symbolic.
\<close>

datatype usart_stop_bits = ARM_USART_STOP_BITS_1 | ARM_USART_STOP_BITS_1_5 | ARM_USART_STOP_BITS_2

datatype usart_parity = ARM_USART_PARITY_NONE | ARM_USART_PARITY_ODD | ARM_USART_PARITY_EVEN

datatype usart_data_bits =
  ARM_USART_DATA_BITS_5 | ARM_USART_DATA_BITS_6 | ARM_USART_DATA_BITS_7 | ARM_USART_DATA_BITS_8

datatype uart_call =
    Initialize
  | Uninitialize
  | PowerControl_FULL
  | PowerControl_OFF
  | Send string
  | Receive nat
  | Control_ABORT_SEND
  | Control_ABORT_RECEIVE
  | Control_TX bool
  | Control_RX bool
  | Control_MODE_ASYNCHRONOUS usart_data_bits usart_parity usart_stop_bits "32 word"

text \<open>
  The globals of the module. \<^verbatim>\<open>uart_rx_buf\<close> is written by the driver only and read
  by the USB stack only; the module passes its address, so only the offsets appear here.
  \<^verbatim>\<open>cmd_buffer_cnt\<close> is an \<^verbatim>\<open>int\<close> that is only incremented and reset to 0.
  \<^verbatim>\<open>gpio_out\<close> is the level last written to each output line,
  \<^verbatim>\<open>uart_calls\<close> the requests made to the driver so far, oldest first.
\<close>

record state =
  usb_receive_buffer :: string
  uart_tx_buf :: string
  uart_rx_cnt :: "32 word"
  usb_tx_cnt :: "32 word"
  cdc_acm_bridge_tid :: "nat option"
  cdc_acm_line_coding :: CDC_LINE_CODING
  cmd_buffer :: string
  cmd_buffer_cnt :: nat
  storedLCDString :: string
  gpio_out :: "gpio_line \<Rightarrow> bool"
  uart_calls :: "uart_call list"

text \<open>The state at start-up: static storage is zeroed, no output has been written.\<close>

definition initial_state :: state where
  "initial_state =
     \<lparr>usb_receive_buffer = replicate USB_RECEIVE_BUFFER_SIZE NUL,
      uart_tx_buf = replicate (unat UART_BUFFER_SIZE) NUL,
      uart_rx_cnt = 0,
      usb_tx_cnt = 0,
      cdc_acm_bridge_tid = None,
      cdc_acm_line_coding = line_coding_zero,
      cmd_buffer = replicate CMD_BUFFER_SIZE NUL,
      cmd_buffer_cnt = 0,
      storedLCDString = replicate 50 NUL,
      gpio_out = (\<lambda>_. False),
      uart_calls = []\<rparr>"

definition ptrUART :: "uart_call \<Rightarrow> state \<Rightarrow> state" where
  "ptrUART c s = s\<lparr>uart_calls := uart_calls s @ [c]\<rparr>"

subsection \<open>UART to USB: the completion callback and the drain thread\<close>

text \<open>
  \<^verbatim>\<open>UART_Callback(event)\<close>. The two event bits are given as booleans;
  \<open>usb_data\<close> is what \<^verbatim>\<open>USBD_CDC_ACM_ReadData\<close> delivers into \<^verbatim>\<open>uart_tx_buf\<close>
  (nothing, when it returns a count that is not positive).
\<close>

definition UART_Callback :: "bool \<Rightarrow> bool \<Rightarrow> string \<Rightarrow> state \<Rightarrow> state" where
  "UART_Callback send_complete receive_complete usb_data s =
     (let s1 =
        (if send_complete then
           (let d = take (unat UART_BUFFER_SIZE) usb_data;
                s' = s\<lparr>uart_tx_buf := d @ drop (length d) (uart_tx_buf s)\<rparr>
            in if 0 < length d then ptrUART (Send d) s' else s')
         else s)
      in if receive_complete then
           ptrUART (Receive (unat UART_BUFFER_SIZE))
             (s1\<lparr>uart_rx_cnt := uart_rx_cnt s1 + UART_BUFFER_SIZE\<rparr>)
         else s1)"

text \<open>
  What one pass of the drain loop reads from outside: the driver's \<^verbatim>\<open>rx_busy\<close>
  flag, \<^verbatim>\<open>GetRxCount()\<close> converted to \<^verbatim>\<open>int32_t\<close>, and the count that
  \<^verbatim>\<open>USBD_CDC_ACM_WriteData\<close> returns if it is called.
\<close>

record tick_env =
  rx_busy :: bool
  rx_count :: "32 word"
  write_result :: "32 word"

text \<open>
  One iteration of the \<^verbatim>\<open>for (;;)\<close> loop of \<^verbatim>\<open>CDC0_ACM_UART_to_USB_Thread\<close>,
  without the delay. The \<^verbatim>\<open>int32_t\<close> values are 32-bit words read as two's complement
  by \<open>sint\<close>. The first component of the result is the hand-off made to the USB stack on
  this pass, if any: the offset into \<^verbatim>\<open>uart_rx_buf\<close> and the count offered.
\<close>

definition CDC0_ACM_UART_to_USB_Thread_iter ::
  "tick_env \<Rightarrow> state \<Rightarrow> (32 word \<times> 32 word) option \<times> state" where
  "CDC0_ACM_UART_to_USB_Thread_iter e s =
     (if rx_busy e then
        (let cnt = uart_rx_cnt s + rx_count e - usb_tx_cnt s;
             dump = (sint UART_BUFFER_SIZE \<le> sint cnt);
             s1 = (if dump then s\<lparr>usb_tx_cnt := usb_tx_cnt s + cnt\<rparr> else s);
             cnt1 = (if dump then 0 else cnt)
         in if 0 < sint cnt1 then
              (let off = usb_tx_cnt s1 AND (UART_BUFFER_SIZE - 1);
                   cnt_to_wrap = UART_BUFFER_SIZE - off;
                   cnt2 = (if sint cnt_to_wrap < sint cnt1 then cnt_to_wrap else cnt1);
                   cnt3 = write_result e
               in (Some (off, cnt2),
                   if 0 < sint cnt3 then s1\<lparr>usb_tx_cnt := usb_tx_cnt s1 + cnt3\<rparr> else s1))
            else (None, s1))
      else (None, s))"

text \<open>
  A schedule of the two activities that touch the counters: a receive-complete event of
  the driver, or one pass of the drain loop.
\<close>

datatype bridge_op = Producer | Drain tick_env

fun bridge_step :: "bridge_op \<Rightarrow> state \<Rightarrow> state" where
  "bridge_step Producer s = UART_Callback False True [] s"
| "bridge_step (Drain e) s = snd (CDC0_ACM_UART_to_USB_Thread_iter e s)"

fun bridge_run :: "bridge_op list \<Rightarrow> state \<Rightarrow> state" where
  "bridge_run [] s = s"
| "bridge_run (x # xs) s = bridge_run xs (bridge_step x s)"

text \<open>The unread span as the counters give it, and as the drain loop computes it.\<close>

definition span :: "state \<Rightarrow> int" where
  "span s = sint (uart_rx_cnt s - usb_tx_cnt s)"

definition span_in_flight :: "32 word \<Rightarrow> state \<Rightarrow> int" where
  "span_in_flight r s = sint (uart_rx_cnt s + r - usb_tx_cnt s)"

subsection \<open>C strings\<close>

text \<open>
  A character array is a list of bytes; the C string it holds ends before the first NUL.
  A string argument of a library function is given without its terminator.
\<close>

definition cstr :: "string \<Rightarrow> string" where
  "cstr buf = takeWhile (\<lambda>c. c \<noteq> NUL) buf"

text \<open>\<^verbatim>\<open>strncmp(a, b, n) == 0\<close>: the comparison stops at the first difference, at the
  end of both strings, or after \<open>n\<close> characters.\<close>

fun strncmp_eq :: "nat \<Rightarrow> string \<Rightarrow> string \<Rightarrow> bool" where
  "strncmp_eq 0 a b = True"
| "strncmp_eq (Suc n) [] [] = True"
| "strncmp_eq (Suc n) (x # xs) (y # ys) = (x = y \<and> strncmp_eq n xs ys)"
| "strncmp_eq (Suc n) [] (y # ys) = False"
| "strncmp_eq (Suc n) (x # xs) [] = False"

definition isspace :: "char \<Rightarrow> bool" where
  "isspace c = (c \<in> set [CHR '' '', CHR 0x09, CHR 0x0A, CHR 0x0B, CHR 0x0C, CHR 0x0D])"

definition isdigit :: "char \<Rightarrow> bool" where
  "isdigit c = (c \<in> set ''0123456789'')"

fun atoi_digits :: "int \<Rightarrow> string \<Rightarrow> int" where
  "atoi_digits acc [] = acc"
| "atoi_digits acc (c # cs) =
     (if isdigit c then atoi_digits (acc * 10 + (of_char c - 48)) cs else acc)"

text \<open>
  \<^verbatim>\<open>atoi\<close>: white space, an optional sign, then decimal digits up to the first other
  character. The value is an unbounded integer: the C function is undefined where the
  digits do not fit an \<^verbatim>\<open>int\<close>.
\<close>

definition atoi :: "string \<Rightarrow> int" where
  "atoi str =
     (case dropWhile isspace str of
        [] \<Rightarrow> 0
      | c # cs \<Rightarrow>
          if c = CHR ''-'' then - atoi_digits 0 cs
          else if c = CHR ''+'' then atoi_digits 0 cs
          else atoi_digits 0 (c # cs))"

text \<open>The conversion \<^verbatim>\<open>%d\<close> of \<^verbatim>\<open>snprintf\<close>.\<close>

fun decimal :: "nat \<Rightarrow> string" where
  "decimal n =
     (if n < 10 then [''0123456789'' ! n]
      else decimal (n div 10) @ [''0123456789'' ! (n mod 10)])"

declare decimal.simps [simp del]

definition format_d :: "int \<Rightarrow> string" where
  "format_d i = (if i < 0 then CHR ''-'' # decimal (nat (- i)) else decimal (nat i))"

subsection \<open>The command interpreter\<close>

text \<open>
  What a dispatch reads from outside the module: the levels of the input lines
  (\<open>True\<close> is \<^verbatim>\<open>GPIO_PIN_SET\<close>; they are taken to be stable during one dispatch), the
  value the ADC returns to \<^verbatim>\<open>ReadPot\<close>, and the bytes found in memory behind the local
  array \<^verbatim>\<open>binaryString\<close>, by index, which \<^verbatim>\<open>process_AT_command\<close> reads.
\<close>

record at_env =
  gpio_in :: "gpio_line \<Rightarrow> bool"
  adc_value :: "32 word"
  behind_binaryString :: "nat \<Rightarrow> char"

text \<open>\<^verbatim>\<open>intToBinaryString(num, binaryString, size)\<close>: the array afterwards, of
  \<^verbatim>\<open>size + 1\<close> bytes; the loop fills it from the last digit to the first.\<close>

fun binary_digits :: "int \<Rightarrow> nat \<Rightarrow> string" where
  "binary_digits num n =
     (if n = 0 then []
      else binary_digits (num div 2) (n - 1)
             @ [if num mod 2 = 1 then CHR ''1'' else CHR ''0''])"

declare binary_digits.simps [simp del]

definition intToBinaryString :: "int \<Rightarrow> nat \<Rightarrow> string" where
  "intToBinaryString num n = binary_digits num n @ [NUL]"

text \<open>\<^verbatim>\<open>strncpy(storedLCDString, lcdString, sizeof(storedLCDString) - 1)\<close>, which pads
  with NUL up to the count, then the terminator in the last byte.\<close>

definition storeLCDString :: "string \<Rightarrow> state \<Rightarrow> state" where
  "storeLCDString lcdString s =
     (let n = length (storedLCDString s) - 1;
          copied = take n lcdString @ replicate (n - length lcdString) NUL
      in s\<lparr>storedLCDString := (copied @ drop n (storedLCDString s))[n := NUL]\<rparr>)"

definition HAL_GPIO_WritePin :: "gpio_line \<Rightarrow> bool \<Rightarrow> state \<Rightarrow> state" where
  "HAL_GPIO_WritePin line level s = s\<lparr>gpio_out := (gpio_out s)(line := level)\<rparr>"

text \<open>\<^verbatim>\<open>snprintf((char*)uart_tx_buf, UART_BUFFER_SIZE, ...)\<close> with the formatted text:
  at most 511 characters and the terminator are stored, the rest of the array stays.\<close>

definition snprintf_uart_tx_buf :: "string \<Rightarrow> state \<Rightarrow> state" where
  "snprintf_uart_tx_buf text s =
     (let out = take (unat UART_BUFFER_SIZE - 1) text @ [NUL]
      in s\<lparr>uart_tx_buf := out @ drop (length out) (uart_tx_buf s)\<rparr>)"

text \<open>The \<^verbatim>\<open>switch (i + 1)\<close> of the LED loop.\<close>

definition led_line :: "nat \<Rightarrow> gpio_line option" where
  "led_line k =
     (if k = 1 then Some LED1 else if k = 2 then Some LED2
      else if k = 3 then Some LED3 else if k = 4 then Some LED4
      else if k = 5 then Some LED5 else if k = 6 then Some LED6
      else if k = 7 then Some LED7 else if k = 8 then Some LED8
      else None)"

text \<open>
  \<^verbatim>\<open>for (int i = 0; i < 8; i++)\<close> over \<^verbatim>\<open>binaryString[i]\<close>. The array has
  \<open>length binaryString\<close> bytes; an index beyond it reads the byte behind the array.
\<close>

function led_loop :: "at_env \<Rightarrow> string \<Rightarrow> nat \<Rightarrow> state \<Rightarrow> state" where
  "led_loop env binaryString i s =
     (if i < 8 then
        (let c = (if i < length binaryString then binaryString ! i
                  else behind_binaryString env i);
             s' = (case led_line (i + 1) of
                     None \<Rightarrow> s
                   | Some line \<Rightarrow> HAL_GPIO_WritePin line (c = CHR ''1'') s)
         in led_loop env binaryString (i + 1) s')
      else s)"
  by pat_completeness auto
termination
  by (relation "measure (\<lambda>(env, binaryString, i, s). 8 - i)") auto

declare led_loop.simps [simp del]

text \<open>The reply of \<^verbatim>\<open>AT+BUTTON\<close>; a button is pressed when its line reads
  \<^verbatim>\<open>GPIO_PIN_RESET\<close>.\<close>

definition button_report :: "(gpio_line \<Rightarrow> bool) \<Rightarrow> string" where
  "button_report pin =
     (let b1 = \<not> pin SW1; b2 = \<not> pin SW2; b3 = \<not> pin SW3; b4 = \<not> pin SW4
      in if b1 \<and> b2 \<and> b3 \<and> b4 then ''All buttons are pressed''
         else if b1 \<and> b2 \<and> b3 then ''Button 1, Button 2 and Button 3 are pressed''
         else if b1 \<and> b2 \<and> b4 then ''Button 1, Button 2 and Button 4 are pressed''
         else if b1 \<and> b3 \<and> b4 then ''Button 1, Button 3 and Button 4 are pressed''
         else if b2 \<and> b3 \<and> b4 then ''Button 2, Button 3 and Button 4 are pressed''
         else if b1 \<and> b2 then ''Button 1 and Button 2 are pressed''
         else if b1 \<and> b3 then ''Button 1 and Button 3 are pressed''
         else if b1 \<and> b4 then ''Button 1 and Button 4 are pressed''
         else if b2 \<and> b3 then ''Button 2 and Button 3 are pressed''
         else if b2 \<and> b4 then ''Button 2 and Button 4 are pressed''
         else if b3 \<and> b4 then ''Button 3 and Button 4 are pressed''
         else if b1 then ''Button 1 is pressed''
         else if b2 then ''Button 2 is pressed''
         else if b3 then ''Button 3 is pressed''
         else if b4 then ''Button 4 is pressed''
         else ''No button is pressed'')"

text \<open>
  \<^verbatim>\<open>process_AT_command(cmd_buffer)\<close>. The argument is the array the pointer refers
  to. Only the \<^verbatim>\<open>AT+BUTTON\<close> and \<^verbatim>\<open>AT+POT\<close> branches call the driver's
  \<^verbatim>\<open>Send\<close>.
\<close>

definition process_AT_command :: "at_env \<Rightarrow> string \<Rightarrow> state \<Rightarrow> state" where
  "process_AT_command env buf s =
     (let line = cstr buf in
      if strncmp_eq 6 line ''AT+LED'' then
        (let led_value = atoi (drop 6 line);
             s1 = (if 1 \<le> led_value \<and> led_value \<le> 8
                   then led_loop env (intToBinaryString led_value 4) 0 s
                   else s)
         in snprintf_uart_tx_buf (''LED value set to: '' @ format_d led_value @ [CR, LF]) s1)
      else if strncmp_eq 6 line ''AT+LCD='' then
        (let lcdString = drop 6 line;
             s1 = storeLCDString lcdString s
         in snprintf_uart_tx_buf (''LCD string set to: '' @ lcdString @ [CR, LF]) s1)
      else if strncmp_eq 9 line ''AT+BUTTON'' then
        (let s1 = snprintf_uart_tx_buf (button_report (gpio_in env) @ [CR, LF]) s
         in ptrUART (Send (cstr (uart_tx_buf s1))) s1)
      else if strncmp_eq 6 line ''AT+POT'' then
        (let potValue = sint (adc_value env);
             s1 = snprintf_uart_tx_buf
                    (''Potentiometer value: '' @ format_d potValue @ [CR, LF]) s
         in ptrUART (Send (cstr (uart_tx_buf s1))) s1)
      else s)"

text \<open>
  \<^verbatim>\<open>cmd_buffer[cmd_buffer_cnt++] = c\<close>. The source makes no bounds check; a store at
  an index outside the array is a fault of the model, since what it overwrites is not
  part of the module's text.
\<close>

datatype fault = Write_outside_cmd_buffer nat

definition cmd_buffer_store :: "char \<Rightarrow> state \<Rightarrow> fault + state" where
  "cmd_buffer_store c s =
     (if cmd_buffer_cnt s < length (cmd_buffer s)
      then Inr (s\<lparr>cmd_buffer := (cmd_buffer s)[cmd_buffer_cnt s := c],
                  cmd_buffer_cnt := cmd_buffer_cnt s + 1\<rparr>)
      else Inl (Write_outside_cmd_buffer (cmd_buffer_cnt s)))"

text \<open>The loop over the received bytes in \<^verbatim>\<open>USBD_CDC0_ACM_DataReceived\<close>.\<close>

fun received_loop :: "at_env \<Rightarrow> string \<Rightarrow> state \<Rightarrow> fault + state" where
  "received_loop env [] s = Inr s"
| "received_loop env (c # cs) s =
     (if c = CR then
        (case cmd_buffer_store NUL s of
           Inl f \<Rightarrow> Inl f
         | Inr s1 \<Rightarrow>
             received_loop env cs
               ((process_AT_command env (cmd_buffer s1) s1)\<lparr>cmd_buffer_cnt := 0\<rparr>))
      else
        (case cmd_buffer_store c s of
           Inl f \<Rightarrow> Inl f
         | Inr s1 \<Rightarrow> received_loop env cs s1))"

text \<open>
  \<^verbatim>\<open>USBD_CDC0_ACM_DataReceived(len)\<close>; \<open>usb_data\<close> is what
  \<^verbatim>\<open>USBD_CDC_ACM_ReadData\<close> delivers into \<^verbatim>\<open>usb_receive_buffer\<close>.
\<close>

definition USBD_CDC0_ACM_DataReceived :: "at_env \<Rightarrow> string \<Rightarrow> state \<Rightarrow> fault + state" where
  "USBD_CDC0_ACM_DataReceived env usb_data s =
     (let d = take USB_RECEIVE_BUFFER_SIZE usb_data;
          s0 = s\<lparr>usb_receive_buffer := d @ drop (length d) (usb_receive_buffer s)\<rparr>
      in received_loop env d s0)"

subsection \<open>Life cycle and line coding\<close>

text \<open>\<open>tid\<close> is the result of the thread creation call.\<close>

definition USBD_CDC0_ACM_Initialize :: "nat option \<Rightarrow> state \<Rightarrow> state" where
  "USBD_CDC0_ACM_Initialize tid s =
     (ptrUART PowerControl_FULL (ptrUART Initialize s))\<lparr>cdc_acm_bridge_tid := tid\<rparr>"

text \<open>\<open>terminated\<close> tells whether \<^verbatim>\<open>osThreadTerminate\<close> returned \<^verbatim>\<open>osOK\<close>.\<close>

definition USBD_CDC0_ACM_Uninitialize :: "bool \<Rightarrow> state \<Rightarrow> state" where
  "USBD_CDC0_ACM_Uninitialize terminated s =
     (let s1 = (if terminated then s\<lparr>cdc_acm_bridge_tid := None\<rparr> else s)
      in ptrUART Uninitialize (ptrUART PowerControl_OFF (ptrUART Control_ABORT_RECEIVE s1)))"

definition USBD_CDC0_ACM_Reset :: "state \<Rightarrow> state" where
  "USBD_CDC0_ACM_Reset s = ptrUART Control_ABORT_RECEIVE (ptrUART Control_ABORT_SEND s)"

definition stop_bits_of :: "8 word \<Rightarrow> usart_stop_bits option" where
  "stop_bits_of f =
     (if f = 0 then Some ARM_USART_STOP_BITS_1
      else if f = 1 then Some ARM_USART_STOP_BITS_1_5
      else if f = 2 then Some ARM_USART_STOP_BITS_2
      else None)"

definition parity_of :: "8 word \<Rightarrow> usart_parity option" where
  "parity_of p =
     (if p = 0 then Some ARM_USART_PARITY_NONE
      else if p = 1 then Some ARM_USART_PARITY_ODD
      else if p = 2 then Some ARM_USART_PARITY_EVEN
      else None)"

definition data_bits_of :: "8 word \<Rightarrow> usart_data_bits option" where
  "data_bits_of d =
     (if d = 5 then Some ARM_USART_DATA_BITS_5
      else if d = 6 then Some ARM_USART_DATA_BITS_6
      else if d = 7 then Some ARM_USART_DATA_BITS_7
      else if d = 8 then Some ARM_USART_DATA_BITS_8
      else None)"

text \<open>
  \<^verbatim>\<open>USBD_CDC0_ACM_SetLineCoding(line_coding)\<close>; \<open>status\<close> is what the driver's
  \<^verbatim>\<open>Control\<close> returns for the mode request. The three \<^verbatim>\<open>switch\<close> statements
  return \<^verbatim>\<open>false\<close> in their \<^verbatim>\<open>default\<close> case.
\<close>

definition USBD_CDC0_ACM_SetLineCoding ::
  "32 word \<Rightarrow> CDC_LINE_CODING \<Rightarrow> state \<Rightarrow> bool \<times> state" where
  "USBD_CDC0_ACM_SetLineCoding status line_coding s =
     (let s0 = ptrUART (Control_RX False) (ptrUART (Control_TX False)
                 (ptrUART Control_ABORT_RECEIVE (ptrUART Control_ABORT_SEND s)))
      in case stop_bits_of (bCharFormat line_coding) of
           None \<Rightarrow> (False, s0)
         | Some stop_bits \<Rightarrow>
        (case parity_of (bParityType line_coding) of
           None \<Rightarrow> (False, s0)
         | Some parity \<Rightarrow>
        (case data_bits_of (bDataBits line_coding) of
           None \<Rightarrow> (False, s0)
         | Some data_bits \<Rightarrow>
            (let s1 = ptrUART (Control_MODE_ASYNCHRONOUS data_bits parity stop_bits
                                 (dwDTERate line_coding)) s0
             in if status \<noteq> ARM_DRIVER_OK then (False, s1)
                else (True,
                      ptrUART (Receive (unat UART_BUFFER_SIZE))
                        (ptrUART (Control_RX True) (ptrUART (Control_TX True)
                          (s1\<lparr>cdc_acm_line_coding := line_coding,
                              uart_rx_cnt := 0, usb_tx_cnt := 0\<rparr>))))))))"

definition USBD_CDC0_ACM_GetLineCoding :: "state \<Rightarrow> bool \<times> CDC_LINE_CODING" where
  "USBD_CDC0_ACM_GetLineCoding s = (True, cdc_acm_line_coding s)"

section \<open>Properties of the UART to USB path\<close>

subsection \<open>Two's complement arithmetic of the counters\<close>

lemma buf_mask: "(UART_BUFFER_SIZE - 1 :: 32 word) = mask 9"
  by (simp add: UART_BUFFER_SIZE_def mask_eq_exp_minus_1)

lemma off_uint: "uint ((x :: 32 word) AND (UART_BUFFER_SIZE - 1)) = uint x mod 512"
  by (simp add: buf_mask and_mask_mod_2p uint_word_of_int take_bit_eq_mod)

lemma sint_small:
  fixes w :: "32 word"
  assumes "uint w < 2 ^ 31"
  shows "sint w = uint w"
proof -
  have "- (2 ^ 31) \<le> uint w"
    by (rule order_trans [of _ 0]) simp_all
  then show ?thesis
    using assms signed_take_bit_int_eq_self [of 31 "uint w"] by (simp add: sint_uint)
qed

lemma sint_sub:
  "- (2 ^ 31) \<le> sint a - sint b \<Longrightarrow> sint a - sint b < 2 ^ 31
   \<Longrightarrow> sint ((a :: 32 word) - b) = sint a - sint b"
  by (simp add: sint_word_ariths signed_take_bit_int_eq_self)

lemma sint_buf: "sint UART_BUFFER_SIZE = 512"
  by (simp add: UART_BUFFER_SIZE_def)

lemma sint_off: "sint ((x :: 32 word) AND (UART_BUFFER_SIZE - 1)) = uint x mod 512"
proof -
  have "uint (x AND (UART_BUFFER_SIZE - 1)) = uint x mod 512" by (rule off_uint)
  moreover have "0 \<le> uint x mod 512" "uint x mod 512 < 512" by simp_all
  ultimately show ?thesis using sint_small [of "x AND (UART_BUFFER_SIZE - 1)"] by simp
qed

lemma sint_to_wrap:
  "sint (UART_BUFFER_SIZE - ((x :: 32 word) AND (UART_BUFFER_SIZE - 1))) = 512 - uint x mod 512"
proof -
  have "0 \<le> uint x mod 512" "uint x mod 512 < 512" by simp_all
  then show ?thesis
    using sint_sub [of UART_BUFFER_SIZE "x AND (UART_BUFFER_SIZE - 1)"]
    by (simp add: sint_off sint_buf)
qed


subsection \<open>The three cases of one pass of the drain loop\<close>

lemma iter_not_busy: "\<not> rx_busy e \<Longrightarrow> CDC0_ACM_UART_to_USB_Thread_iter e s = (None, s)"
  by (simp add: CDC0_ACM_UART_to_USB_Thread_iter_def)

lemma iter_dump:
  assumes "rx_busy e" and "sint UART_BUFFER_SIZE \<le> span_in_flight (rx_count e) s"
  shows "CDC0_ACM_UART_to_USB_Thread_iter e s = (None, s\<lparr>usb_tx_cnt := uart_rx_cnt s + rx_count e\<rparr>)"
  using assms by (simp add: CDC0_ACM_UART_to_USB_Thread_iter_def span_in_flight_def Let_def)

lemma iter_idle:
  assumes "rx_busy e" and "span_in_flight (rx_count e) s \<le> 0"
  shows "CDC0_ACM_UART_to_USB_Thread_iter e s = (None, s)"
  using assms by (simp add: CDC0_ACM_UART_to_USB_Thread_iter_def span_in_flight_def Let_def sint_buf)

lemma iter_hand_off:
  assumes "rx_busy e" and "0 < span_in_flight (rx_count e) s"
    and "span_in_flight (rx_count e) s < sint UART_BUFFER_SIZE"
  shows "CDC0_ACM_UART_to_USB_Thread_iter e s =
    (Some (usb_tx_cnt s AND (UART_BUFFER_SIZE - 1),
           if sint (UART_BUFFER_SIZE - (usb_tx_cnt s AND (UART_BUFFER_SIZE - 1))) < span_in_flight (rx_count e) s
           then UART_BUFFER_SIZE - (usb_tx_cnt s AND (UART_BUFFER_SIZE - 1))
           else uart_rx_cnt s + rx_count e - usb_tx_cnt s),
     if 0 < sint (write_result e) then s\<lparr>usb_tx_cnt := usb_tx_cnt s + write_result e\<rparr> else s)"
  using assms by (simp add: CDC0_ACM_UART_to_USB_Thread_iter_def span_in_flight_def Let_def)


lemma producer_adds_chunk:
  "uart_rx_cnt (bridge_step Producer s) = uart_rx_cnt s + UART_BUFFER_SIZE
   \<and> usb_tx_cnt (bridge_step Producer s) = usb_tx_cnt s"
  by (simp add: UART_Callback_def ptrUART_def)

lemma bridge_run_append: "bridge_run (xs @ ys) s = bridge_run ys (bridge_run xs s)"
  by (induction xs arbitrary: s) simp_all

lemma span_after_accept:
  assumes "0 < sint c" and "sint c < 512" and "0 < sint w"
  shows "sint ((c :: 32 word) - w) = sint c - sint w"
proof -
  have "sint w < 2 ^ 31" using sint_lt [of w] by simp
  then show ?thesis using assms by (intro sint_sub) simp_all
qed

lemma span_accepted:
  assumes "0 < span_in_flight r s" and "span_in_flight r s < sint UART_BUFFER_SIZE"
    and "0 < sint w"
  shows "span_in_flight r (s\<lparr>usb_tx_cnt := usb_tx_cnt s + w\<rparr>) = span_in_flight r s - sint w"
proof -
  have eq: "uart_rx_cnt s + r - (usb_tx_cnt s + w) = (uart_rx_cnt s + r - usb_tx_cnt s) - w"
    by simp
  have "span_in_flight r (s\<lparr>usb_tx_cnt := usb_tx_cnt s + w\<rparr>)
      = sint (uart_rx_cnt s + r - (usb_tx_cnt s + w))"
    by (simp add: span_in_flight_def)
  also have "\<dots> = sint ((uart_rx_cnt s + r - usb_tx_cnt s) - w)"
    by (simp only: eq)
  also have "\<dots> = sint (uart_rx_cnt s + r - usb_tx_cnt s) - sint w"
    using assms unfolding span_in_flight_def sint_buf by (intro span_after_accept) simp_all
  finally show ?thesis by (simp add: span_in_flight_def)
qed

lemma iter_span_upper:
  assumes "rx_busy e"
  shows "span_in_flight (rx_count e) (snd (CDC0_ACM_UART_to_USB_Thread_iter e s)) < sint UART_BUFFER_SIZE"
proof -
  let ?c = "span_in_flight (rx_count e) s"
  consider "sint UART_BUFFER_SIZE \<le> ?c" | "?c \<le> 0" | "0 < ?c" "?c < sint UART_BUFFER_SIZE"
    by linarith
  then show ?thesis
  proof cases
    case 1
    then show ?thesis using assms
      by (simp add: iter_dump span_in_flight_def sint_buf)
  next
    case 2
    then show ?thesis using assms
      by (simp add: iter_idle sint_buf)
  next
    case 3
    show ?thesis
    proof (cases "0 < sint (write_result e)")
      case True
      have "span_in_flight (rx_count e) (s\<lparr>usb_tx_cnt := usb_tx_cnt s + write_result e\<rparr>)
            = ?c - sint (write_result e)"
        using 3 True by (rule span_accepted)
      then show ?thesis using assms 3 True
        by (simp add: iter_hand_off)
    next
      case False
      then show ?thesis using assms 3 by (simp add: iter_hand_off)
    qed
  qed
qed

lemma iter_span_lower:
  assumes "rx_busy e" and "0 \<le> span_in_flight (rx_count e) s"
    and "sint (write_result e) \<le> span_in_flight (rx_count e) s"
  shows "0 \<le> span_in_flight (rx_count e) (snd (CDC0_ACM_UART_to_USB_Thread_iter e s))"
proof -
  let ?c = "span_in_flight (rx_count e) s"
  consider "sint UART_BUFFER_SIZE \<le> ?c" | "?c \<le> 0" | "0 < ?c" "?c < sint UART_BUFFER_SIZE"
    by linarith
  then show ?thesis
  proof cases
    case 1
    then show ?thesis using assms
      by (simp add: iter_dump span_in_flight_def sint_buf)
  next
    case 2
    then show ?thesis using assms
      by (simp add: iter_idle)
  next
    case 3
    show ?thesis
    proof (cases "0 < sint (write_result e)")
      case True
      have "span_in_flight (rx_count e) (s\<lparr>usb_tx_cnt := usb_tx_cnt s + write_result e\<rparr>)
            = ?c - sint (write_result e)"
        using 3 True by (rule span_accepted)
      then show ?thesis using assms 3 True
        by (simp add: iter_hand_off)
    next
      case False
      then show ?thesis using assms 3 by (simp add: iter_hand_off)
    qed
  qed
qed

text \<open>
  Claim C1, as stated, fails: two receive-complete events with no pass of the drain loop
  between them leave \<^verbatim>\<open>uart_rx_cnt - usb_tx_cnt\<close> at 1024, twice the capacity. The
  callback adds to the counter without looking at the span.
\<close>

theorem span_exceeds_capacity_after_two_chunks:
  "\<not> (0 \<le> span (bridge_run [Producer, Producer] initial_state)
      \<and> span (bridge_run [Producer, Producer] initial_state) \<le> sint UART_BUFFER_SIZE)"
  by (simp add: span_def UART_Callback_def ptrUART_def initial_state_def UART_BUFFER_SIZE_def)

text \<open>
  Claim C1, amended: after any schedule of receive-complete events and passes of the drain
  loop from the zeroed counters, a pass that finds the receiver busy leaves the span as
  the loop computes it, \<^verbatim>\<open>uart_rx_cnt + GetRxCount() - usb_tx_cnt\<close>, below
  \<^verbatim>\<open>UART_BUFFER_SIZE\<close>; the span is not negative afterwards when it was not negative
  before the pass and the USB stack reports no more than the unread count.
\<close>

theorem drain_bounds_span_in_flight:
  assumes "rx_busy e"
  shows "span_in_flight (rx_count e) (bridge_run (ops @ [Drain e]) initial_state) < sint UART_BUFFER_SIZE
     \<and> (0 \<le> span_in_flight (rx_count e) (bridge_run ops initial_state)
          \<and> sint (write_result e) \<le> span_in_flight (rx_count e) (bridge_run ops initial_state)
        \<longrightarrow> 0 \<le> span_in_flight (rx_count e) (bridge_run (ops @ [Drain e]) initial_state))"
  using assms by (simp add: bridge_run_append iter_span_upper iter_span_lower)

text \<open>The amended claim C1 at a schedule of two events and one pass, with three bytes in
  flight: the pass finds a span of 1027 and leaves 0.\<close>

theorem drain_bounds_span_in_flight_witness:
  "rx_busy \<lparr>rx_busy = True, rx_count = 3, write_result = 0\<rparr>
   \<and> span_in_flight 3 (bridge_run [Producer, Producer] initial_state) = 1027
   \<and> span_in_flight 3
        (bridge_run ([Producer, Producer] @ [Drain \<lparr>rx_busy = True, rx_count = 3, write_result = 0\<rparr>])
           initial_state) = 0"
  using drain_bounds_span_in_flight [of "\<lparr>rx_busy = True, rx_count = 3, write_result = 0\<rparr>" "[Producer, Producer]"]
  by (simp add: span_in_flight_def UART_Callback_def ptrUART_def initial_state_def
      UART_BUFFER_SIZE_def CDC0_ACM_UART_to_USB_Thread_iter_def)

text \<open>
  Claim C2: a pass of the drain loop that finds the receiver busy and the unread span,
  counted with the bytes in flight, above \<^verbatim>\<open>UART_BUFFER_SIZE\<close> makes no hand-off and
  changes nothing but \<^verbatim>\<open>usb_tx_cnt\<close>, which becomes the received total
  \<^verbatim>\<open>uart_rx_cnt + GetRxCount()\<close>; the span is then 0.
\<close>

theorem overflow_discards_whole_backlog:
  assumes "rx_busy e" and "sint UART_BUFFER_SIZE < span_in_flight (rx_count e) s"
  shows "CDC0_ACM_UART_to_USB_Thread_iter e s
           = (None, s\<lparr>usb_tx_cnt := uart_rx_cnt s + rx_count e\<rparr>)
     \<and> span_in_flight (rx_count e) (snd (CDC0_ACM_UART_to_USB_Thread_iter e s)) = 0"
  using assms by (simp add: iter_dump span_in_flight_def)


text \<open>
  Claim C5, amended to a span strictly below the capacity: a pass of the drain loop that
  finds the receiver busy and a span between 1 and \<^verbatim>\<open>UART_BUFFER_SIZE - 1\<close> offers
  one run to the USB stack. The run starts at the offset \<^verbatim>\<open>usb_tx_cnt\<close> modulo the
  capacity (of the counter read as unsigned, as the mask does) and its length is the
  smaller of the span and the distance to the end of the buffer. A positive result of the
  write is added to \<^verbatim>\<open>usb_tx_cnt\<close> and nothing else changes; with a result of zero
  or below the state is as before.
\<close>

theorem drain_hands_off_run_before_wrap:
  assumes "rx_busy e" and "0 < span_in_flight (rx_count e) s"
    and "span_in_flight (rx_count e) s < sint UART_BUFFER_SIZE"
  shows "\<exists>len. fst (CDC0_ACM_UART_to_USB_Thread_iter e s)
                 = Some (usb_tx_cnt s AND (UART_BUFFER_SIZE - 1), len)
     \<and> uint (usb_tx_cnt s AND (UART_BUFFER_SIZE - 1)) = uint (usb_tx_cnt s) mod uint UART_BUFFER_SIZE
     \<and> sint len = min (span_in_flight (rx_count e) s)
                      (sint UART_BUFFER_SIZE - uint (usb_tx_cnt s AND (UART_BUFFER_SIZE - 1)))
     \<and> (0 < sint (write_result e) \<longrightarrow>
          snd (CDC0_ACM_UART_to_USB_Thread_iter e s)
            = s\<lparr>usb_tx_cnt := usb_tx_cnt s + write_result e\<rparr>)
     \<and> (sint (write_result e) \<le> 0 \<longrightarrow> snd (CDC0_ACM_UART_to_USB_Thread_iter e s) = s)"
proof -
  let ?off = "usb_tx_cnt s AND (UART_BUFFER_SIZE - 1)"
  let ?c = "uart_rx_cnt s + rx_count e - usb_tx_cnt s"
  let ?len = "if sint (UART_BUFFER_SIZE - ?off) < span_in_flight (rx_count e) s
              then UART_BUFFER_SIZE - ?off else ?c"
  have run: "CDC0_ACM_UART_to_USB_Thread_iter e s =
      (Some (?off, ?len),
       if 0 < sint (write_result e) then s\<lparr>usb_tx_cnt := usb_tx_cnt s + write_result e\<rparr> else s)"
    using assms by (rule iter_hand_off)
  have off: "uint ?off = uint (usb_tx_cnt s) mod uint UART_BUFFER_SIZE"
    using off_uint [of "usb_tx_cnt s"] by (simp add: UART_BUFFER_SIZE_def)
  have len: "sint ?len = min (span_in_flight (rx_count e) s) (sint UART_BUFFER_SIZE - uint ?off)"
    by (simp add: sint_to_wrap off_uint sint_buf span_in_flight_def min_def)
  show ?thesis
    using off len by (intro exI [of _ ?len]) (simp add: run)
qed

text \<open>The amended claim C5 with 12 bytes unread at offset 510: two bytes are offered,
  the two before the wrap, and both are accepted.\<close>

theorem drain_hands_off_run_before_wrap_witness:
  "span_in_flight 10 (initial_state\<lparr>uart_rx_cnt := 512, usb_tx_cnt := 510\<rparr>) = 12
   \<and> CDC0_ACM_UART_to_USB_Thread_iter \<lparr>rx_busy = True, rx_count = 10, write_result = 2\<rparr>
        (initial_state\<lparr>uart_rx_cnt := 512, usb_tx_cnt := 510\<rparr>)
      = (Some (510, 2), initial_state\<lparr>uart_rx_cnt := 512, usb_tx_cnt := 512\<rparr>)"
  using drain_hands_off_run_before_wrap
    [of "\<lparr>rx_busy = True, rx_count = 10, write_result = 2\<rparr>"
        "initial_state\<lparr>uart_rx_cnt := 512, usb_tx_cnt := 510\<rparr>"]
  by (simp add: span_in_flight_def initial_state_def
      UART_BUFFER_SIZE_def CDC0_ACM_UART_to_USB_Thread_iter_def)

text \<open>
  Claim C5, as stated, fails where the span equals the capacity: after one
  receive-complete event and no byte in flight the span is 512, positive and not above
  the capacity, and the pass offers nothing and moves \<^verbatim>\<open>usb_tx_cnt\<close> to 512. The
  test of the loop is \<^verbatim>\<open>cnt >= UART_BUFFER_SIZE\<close>.
\<close>

theorem full_buffer_is_dumped_not_handed_off:
  "0 < span_in_flight 0 (bridge_step Producer initial_state)
   \<and> span_in_flight 0 (bridge_step Producer initial_state) \<le> sint UART_BUFFER_SIZE
   \<and> fst (CDC0_ACM_UART_to_USB_Thread_iter \<lparr>rx_busy = True, rx_count = 0, write_result = 512\<rparr>
            (bridge_step Producer initial_state)) = None
   \<and> usb_tx_cnt (snd (CDC0_ACM_UART_to_USB_Thread_iter
            \<lparr>rx_busy = True, rx_count = 0, write_result = 512\<rparr>
            (bridge_step Producer initial_state))) = 512"
  by (simp add: span_in_flight_def UART_Callback_def ptrUART_def initial_state_def
      UART_BUFFER_SIZE_def CDC0_ACM_UART_to_USB_Thread_iter_def)

text \<open>
  Claim C2 where two receive-complete events have passed without a pass of the loop and
  three bytes are in flight: the span is 1027, the pass moves \<^verbatim>\<open>usb_tx_cnt\<close> to 1027
  and offers nothing, whatever the USB stack would have accepted.
\<close>

theorem overflow_discards_whole_backlog_witness:
  "rx_busy \<lparr>rx_busy = True, rx_count = 3, write_result = 7\<rparr>
   \<and> sint UART_BUFFER_SIZE < span_in_flight 3 (bridge_run [Producer, Producer] initial_state)
   \<and> CDC0_ACM_UART_to_USB_Thread_iter \<lparr>rx_busy = True, rx_count = 3, write_result = 7\<rparr>
        (bridge_run [Producer, Producer] initial_state)
      = (None, (bridge_run [Producer, Producer] initial_state)\<lparr>usb_tx_cnt := 1027\<rparr>)"
  using overflow_discards_whole_backlog [of "\<lparr>rx_busy = True, rx_count = 3, write_result = 7\<rparr>"
      "bridge_run [Producer, Producer] initial_state"]
  by (simp add: span_in_flight_def UART_Callback_def ptrUART_def initial_state_def UART_BUFFER_SIZE_def)

section \<open>Properties of the command interpreter\<close>

subsection \<open>Strings and prefixes\<close>

lemma strncmp_eq_take: "strncmp_eq n a b \<longleftrightarrow> take n a = take n b"
  by (induction n a b rule: strncmp_eq.induct) auto

lemma prefix_take: "length p = n \<Longrightarrow> prefix p line \<longleftrightarrow> take n line = p"
  by (metis append_eq_conv_conj prefix_def take_is_prefix)

lemma match_LED: "strncmp_eq 6 line ''AT+LED'' = prefix ''AT+LED'' line"
  by (simp add: strncmp_eq_take prefix_take [of _ 6])

lemma match_LCD: "strncmp_eq 6 line ''AT+LCD='' = prefix ''AT+LCD'' line"
  by (simp add: strncmp_eq_take prefix_take [of _ 6])

lemma match_BUTTON: "strncmp_eq 9 line ''AT+BUTTON'' = prefix ''AT+BUTTON'' line"
  by (simp add: strncmp_eq_take prefix_take [of _ 9])

lemma match_POT: "strncmp_eq 6 line ''AT+POT'' = prefix ''AT+POT'' line"
  by (simp add: strncmp_eq_take prefix_take [of _ 6])

lemma cstr_terminated: "NUL \<notin> set t \<Longrightarrow> cstr (t @ NUL # rest) = t"
  by (induction t) (auto simp: cstr_def)

lemma cstr_snprintf:
  assumes "NUL \<notin> set t" and "length t < unat UART_BUFFER_SIZE"
  shows "cstr (uart_tx_buf (snprintf_uart_tx_buf t s)) = t"
  using assms by (simp add: snprintf_uart_tx_buf_def Let_def cstr_terminated)


subsection \<open>Dispatch\<close>

text \<open>
  Claim C7: a line that starts with none of \<^verbatim>\<open>AT+LED\<close>, \<^verbatim>\<open>AT+LCD\<close>,
  \<^verbatim>\<open>AT+BUTTON\<close>, \<^verbatim>\<open>AT+POT\<close> leaves the whole state as it was: no output line,
  no stored string, no counter and no buffer changes, and the driver is not called.
\<close>

theorem unknown_command_is_ignored:
  assumes "\<not> prefix ''AT+LED'' (cstr buf)" and "\<not> prefix ''AT+LCD'' (cstr buf)"
    and "\<not> prefix ''AT+BUTTON'' (cstr buf)" and "\<not> prefix ''AT+POT'' (cstr buf)"
  shows "process_AT_command env buf s = s"
  unfolding process_AT_command_def Let_def match_LED match_LCD match_BUTTON match_POT
  using assms by simp


text \<open>
  Claim C7 at the line \<^verbatim>\<open>AT+FOO\<close>.
\<close>

theorem unknown_command_is_ignored_witness:
  "\<not> prefix ''AT+LED'' (cstr (''AT+FOO'' @ [NUL]))
   \<and> \<not> prefix ''AT+LCD'' (cstr (''AT+FOO'' @ [NUL]))
   \<and> \<not> prefix ''AT+BUTTON'' (cstr (''AT+FOO'' @ [NUL]))
   \<and> \<not> prefix ''AT+POT'' (cstr (''AT+FOO'' @ [NUL]))
   \<and> process_AT_command
        \<lparr>gpio_in = (\<lambda>_. True), adc_value = 0, behind_binaryString = (\<lambda>_. NUL)\<rparr>
        (''AT+FOO'' @ [NUL]) initial_state = initial_state"
  using unknown_command_is_ignored [of "''AT+FOO'' @ [NUL]"
      "\<lparr>gpio_in = (\<lambda>_. True), adc_value = 0, behind_binaryString = (\<lambda>_. NUL)\<rparr>"
      initial_state]
  by (simp add: cstr_def NUL_def)


subsection \<open>The line buffer\<close>

lemma store_in_range:
  "cmd_buffer_cnt s < length (cmd_buffer s) \<Longrightarrow>
   cmd_buffer_store c s = Inr (s\<lparr>cmd_buffer := (cmd_buffer s)[cmd_buffer_cnt s := c],
                                cmd_buffer_cnt := cmd_buffer_cnt s + 1\<rparr>)"
  by (simp add: cmd_buffer_store_def)

lemma store_out_of_range:
  "length (cmd_buffer s) \<le> cmd_buffer_cnt s \<Longrightarrow>
   cmd_buffer_store c s = Inl (Write_outside_cmd_buffer (cmd_buffer_cnt s))"
  by (simp add: cmd_buffer_store_def)

lemma received_loop_fills_then_faults:
  assumes "CR \<notin> set line" and "cmd_buffer_cnt s + length line = length (cmd_buffer s)"
  shows "received_loop env (line @ c # rest) s
           = Inl (Write_outside_cmd_buffer (length (cmd_buffer s)))"
  using assms
proof (induction line arbitrary: s)
  case Nil
  then show ?case by (simp add: store_out_of_range)
next
  case (Cons x xs)
  let ?s1 = "s\<lparr>cmd_buffer := (cmd_buffer s)[cmd_buffer_cnt s := x],
               cmd_buffer_cnt := cmd_buffer_cnt s + 1\<rparr>"
  from Cons.prems have "cmd_buffer_cnt s < length (cmd_buffer s)" by simp
  then have st: "cmd_buffer_store x s = Inr ?s1" by (rule store_in_range)
  have "received_loop env (xs @ c # rest) ?s1
          = Inl (Write_outside_cmd_buffer (length (cmd_buffer ?s1)))"
    using Cons.prems by (intro Cons.IH) simp_all
  moreover from Cons.prems have "x \<noteq> CR" by auto
  ultimately show ?case using st by simp
qed


lemma received_loop_stores:
  assumes "CR \<notin> set line" and "cmd_buffer_cnt s + length line \<le> length (cmd_buffer s)"
  shows "received_loop env (line @ rest) s =
     received_loop env rest
       (s\<lparr>cmd_buffer := take (cmd_buffer_cnt s) (cmd_buffer s) @ line
                           @ drop (cmd_buffer_cnt s + length line) (cmd_buffer s),
           cmd_buffer_cnt := cmd_buffer_cnt s + length line\<rparr>)"
  using assms
proof (induction line arbitrary: s)
  case Nil
  then show ?case by simp
next
  case (Cons x xs)
  let ?k = "cmd_buffer_cnt s"
  let ?s1 = "s\<lparr>cmd_buffer := (cmd_buffer s)[?k := x], cmd_buffer_cnt := ?k + 1\<rparr>"
  from Cons.prems have k: "?k < length (cmd_buffer s)" by simp
  then have st: "cmd_buffer_store x s = Inr ?s1" by (rule store_in_range)
  from Cons.prems have x: "x \<noteq> CR" by auto
  have tk: "take (Suc ?k) ((cmd_buffer s)[?k := x]) = take ?k (cmd_buffer s) @ [x]"
    using k by (simp add: take_Suc_conv_app_nth)
  have dr: "drop (Suc (?k + length xs)) ((cmd_buffer s)[?k := x])
        = drop (Suc (?k + length xs)) (cmd_buffer s)"
    by simp
  have "received_loop env ((x # xs) @ rest) s = received_loop env (xs @ rest) ?s1"
    using x st by simp
  also have "\<dots> = received_loop env rest
       (?s1\<lparr>cmd_buffer := take (cmd_buffer_cnt ?s1) (cmd_buffer ?s1) @ xs
                           @ drop (cmd_buffer_cnt ?s1 + length xs) (cmd_buffer ?s1),
           cmd_buffer_cnt := cmd_buffer_cnt ?s1 + length xs\<rparr>)"
    using Cons.prems by (intro Cons.IH) simp_all
  finally show ?case using tk dr by simp
qed

lemma short_line_is_dispatched:
  assumes "CR \<notin> set line" and "cmd_buffer_cnt s = 0" and "length line < length (cmd_buffer s)"
  shows "received_loop env (line @ [CR]) s =
     Inr ((process_AT_command env (line @ NUL # drop (Suc (length line)) (cmd_buffer s))
            (s\<lparr>cmd_buffer := line @ NUL # drop (Suc (length line)) (cmd_buffer s),
                cmd_buffer_cnt := Suc (length line)\<rparr>))\<lparr>cmd_buffer_cnt := 0\<rparr>)"
proof -
  let ?s1 = "s\<lparr>cmd_buffer := line @ drop (length line) (cmd_buffer s),
                cmd_buffer_cnt := length line\<rparr>"
  have "received_loop env (line @ [CR]) s = received_loop env [CR] ?s1"
    using received_loop_stores [of line s env "[CR]"] assms by simp
  moreover have "cmd_buffer_store NUL ?s1 =
      Inr (s\<lparr>cmd_buffer := line @ NUL # drop (Suc (length line)) (cmd_buffer s),
               cmd_buffer_cnt := Suc (length line)\<rparr>)"
  proof -
    have "(line @ drop (length line) (cmd_buffer s))[length line := NUL]
        = line @ NUL # drop (Suc (length line)) (cmd_buffer s)"
      using assms(3) by (simp add: list_update_append Cons_nth_drop_Suc [symmetric])
    then show ?thesis using assms(3) by (simp add: cmd_buffer_store_def)
  qed
  ultimately show ?thesis by simp
qed

lemma DataReceived_overlong_line:
  assumes "CR \<notin> set line" and "cmd_buffer_cnt s = 0" and "length line = length (cmd_buffer s)"
    and "length (line @ c # rest) \<le> USB_RECEIVE_BUFFER_SIZE"
  shows "USBD_CDC0_ACM_DataReceived env (line @ c # rest) s
           = Inl (Write_outside_cmd_buffer (length (cmd_buffer s)))"
proof -
  let ?d = "line @ c # rest"
  let ?s0 = "s\<lparr>usb_receive_buffer := ?d @ drop (length ?d) (usb_receive_buffer s)\<rparr>"
  have "received_loop env ?d ?s0 = Inl (Write_outside_cmd_buffer (length (cmd_buffer ?s0)))"
    using assms(1-3) by (intro received_loop_fills_then_faults) simp_all
  moreover have "take USB_RECEIVE_BUFFER_SIZE ?d = ?d"
    using assms(4) by simp
  ultimately show ?thesis
    by (simp add: USBD_CDC0_ACM_DataReceived_def Let_def)
qed

text \<open>
  Claim C3 fails on the code: 65 bytes without a carriage return, then the carriage return,
  delivered in one call from the start-up state. The 65th byte is stored at index 64 of
  the 64-byte array; no byte is dropped and the dispatch is not reached.
\<close>

theorem overlong_line_writes_outside_cmd_buffer:
  "USBD_CDC0_ACM_DataReceived env (replicate 65 CHR ''A'' @ [CR]) initial_state
     = Inl (Write_outside_cmd_buffer 64)"
proof -
  have "replicate 65 CHR ''A'' @ [CR] = replicate 64 CHR ''A'' @ CHR ''A'' # [CR]"
    using replicate_add [of 64 1 "CHR ''A''"] by simp
  moreover have "USBD_CDC0_ACM_DataReceived env (replicate 64 CHR ''A'' @ CHR ''A'' # [CR]) initial_state
      = Inl (Write_outside_cmd_buffer (length (cmd_buffer initial_state)))"
    by (rule DataReceived_overlong_line)
      (simp_all add: initial_state_def CMD_BUFFER_SIZE_def USB_RECEIVE_BUFFER_SIZE_def CR_def)
  ultimately show ?thesis
    by (simp add: initial_state_def CMD_BUFFER_SIZE_def)
qed

subsection \<open>The LED and LCD commands\<close>

lemmas led_names = LED1_def LED2_def LED3_def LED4_def LED5_def LED6_def LED7_def LED8_def

lemma led_loop_five:
  "led_loop env [a, b, c, d, e] 0 s =
     s\<lparr>gpio_out := (gpio_out s)
        (LED1 := (a = CHR ''1''), LED2 := (b = CHR ''1''), LED3 := (c = CHR ''1''),
         LED4 := (d = CHR ''1''), LED5 := (e = CHR ''1''),
         LED6 := (behind_binaryString env 5 = CHR ''1''),
         LED7 := (behind_binaryString env 6 = CHR ''1''),
         LED8 := (behind_binaryString env 7 = CHR ''1''))\<rparr>"
  by (simp add: led_loop.simps led_line_def HAL_GPIO_WritePin_def Let_def eval_nat_numeral)

lemma intToBinaryString_four_bits:
  "intToBinaryString 5 4 = ''0101'' @ [NUL]"
  "intToBinaryString 4 4 = ''0100'' @ [NUL]"
  by (simp_all add: intToBinaryString_def binary_digits.simps)

lemma atoi_one_digit: "atoi ''5'' = 5" "atoi ''4'' = 4"
  by (simp_all add: atoi_def isspace_def isdigit_def)

lemma format_d_one_digit: "format_d 5 = ''5''" "format_d 4 = ''4''"
  by (simp_all add: format_d_def decimal.simps)

lemma process_AT_LED_branch:
  assumes "prefix ''AT+LED'' (cstr buf)"
  shows "process_AT_command env buf s =
     snprintf_uart_tx_buf (''LED value set to: '' @ format_d (atoi (drop 6 (cstr buf))) @ [CR, LF])
       (if 1 \<le> atoi (drop 6 (cstr buf)) \<and> atoi (drop 6 (cstr buf)) \<le> 8
        then led_loop env (intToBinaryString (atoi (drop 6 (cstr buf))) 4) 0 s else s)"
  unfolding process_AT_command_def Let_def match_LED using assms by simp

lemma process_AT_LCD_branch:
  assumes "\<not> prefix ''AT+LED'' (cstr buf)" and "prefix ''AT+LCD'' (cstr buf)"
  shows "process_AT_command env buf s =
     snprintf_uart_tx_buf (''LCD string set to: '' @ drop 6 (cstr buf) @ [CR, LF])
       (storeLCDString (drop 6 (cstr buf)) s)"
  unfolding process_AT_command_def Let_def match_LED match_LCD using assms by simp

lemma snprintf_keeps [simp]:
  "uart_calls (snprintf_uart_tx_buf t s) = uart_calls s"
  "gpio_out (snprintf_uart_tx_buf t s) = gpio_out s"
  "storedLCDString (snprintf_uart_tx_buf t s) = storedLCDString s"
  by (simp_all add: snprintf_uart_tx_buf_def Let_def)

lemma process_AT_LED5: "process_AT_command env (''AT+LED5'' @ [NUL]) s = 
   snprintf_uart_tx_buf (''LED value set to: 5'' @ [CR, LF])
     (s\<lparr>gpio_out := (gpio_out s)(LED1 := False, LED2 := True, LED3 := False, LED4 := True, LED5 := False,
         LED6 := (behind_binaryString env 5 = CHR ''1''), LED7 := (behind_binaryString env 6 = CHR ''1''),
         LED8 := (behind_binaryString env 7 = CHR ''1''))\<rparr>)"
proof -
  have line: "cstr (''AT+LED5'' @ [NUL]) = ''AT+LED5''"
    by (rule cstr_terminated) (simp add: NUL_def)
  show ?thesis
    using process_AT_LED_branch [of "''AT+LED5'' @ [NUL]" env s]
    unfolding line by (simp add: atoi_one_digit format_d_one_digit intToBinaryString_four_bits led_loop_five NUL_def)
qed

lemma cstr_before_NUL:
  "NUL \<notin> set t \<Longrightarrow> r \<noteq> [] \<Longrightarrow> hd r = NUL \<Longrightarrow> cstr (t @ r) = t"
  by (cases r) (simp_all add: cstr_terminated)

lemma update_keeps_hd_NUL:
  "r \<noteq> [] \<Longrightarrow> hd r = NUL \<Longrightarrow> r[i := NUL] \<noteq> [] \<and> hd (r[i := NUL]) = NUL"
  by (cases r; cases i) simp_all

lemma cstr_storeLCDString:
  assumes "NUL \<notin> set t" and "length (storedLCDString s) = 50"
  shows "cstr (storedLCDString (storeLCDString t s)) = take 49 t"
proof -
  define r where "r = replicate (49 - length t) NUL @ drop 49 (storedLCDString s)"
  have st: "storedLCDString (storeLCDString t s) = (take 49 t @ r)[49 := NUL]"
    by (simp add: storeLCDString_def Let_def assms(2) r_def)
  have "length (take 49 t) \<le> 49" by simp
  then have "(take 49 t @ r)[49 := NUL] = take 49 t @ r[49 - length (take 49 t) := NUL]"
    by (simp only: list_update_append not_less [symmetric] if_False)
  with st have st': "storedLCDString (storeLCDString t s)
      = take 49 t @ r[49 - length (take 49 t) := NUL]"
    by (simp only:)
  have notin: "NUL \<notin> set (take 49 t)"
    using assms(1) by (auto dest: in_set_takeD)
  show ?thesis
  proof (cases "length t < 49")
    case True
    then have "replicate (49 - length t) NUL \<noteq> []" by simp
    then have "r \<noteq> []" and "hd r = hd (replicate (49 - length t) NUL)"
      by (simp_all add: r_def)
    moreover have "hd (replicate (49 - length t) NUL) = NUL"
      using True by simp
    ultimately have "r \<noteq> []" and "hd r = NUL" by simp_all
    then have "r[49 - length (take 49 t) := NUL] \<noteq> []
        \<and> hd (r[49 - length (take 49 t) := NUL]) = NUL"
      by (rule update_keeps_hd_NUL)
    with notin show ?thesis unfolding st' by (intro cstr_before_NUL) simp_all
  next
    case False
    then have r: "r = drop 49 (storedLCDString s)" and i: "49 - length (take 49 t) = 0"
      by (simp_all add: r_def)
    have "length r = Suc 0" using assms(2) by (simp add: r)
    then obtain x where "r = [x]" by (cases r) auto
    then have "r[0 := NUL] = [NUL]" by simp
    then have "r[49 - length (take 49 t) := NUL] = [NUL]" by (simp only: i)
    with notin show ?thesis unfolding st' by (simp add: cstr_terminated)
  qed
qed

lemma storeLCDString_keeps [simp]:
  "uart_calls (storeLCDString t s) = uart_calls s"
  "gpio_out (storeLCDString t s) = gpio_out s"
  "uart_rx_cnt (storeLCDString t s) = uart_rx_cnt s"
  "usb_tx_cnt (storeLCDString t s) = usb_tx_cnt s"
  by (simp_all add: storeLCDString_def Let_def)

lemma process_AT_LED4: "process_AT_command env (''AT+LED4'' @ [NUL]) s = 
   snprintf_uart_tx_buf (''LED value set to: 4'' @ [CR, LF])
     (s\<lparr>gpio_out := (gpio_out s)(LED1 := False, LED2 := True, LED3 := False, LED4 := False, LED5 := False,
         LED6 := (behind_binaryString env 5 = CHR ''1''), LED7 := (behind_binaryString env 6 = CHR ''1''),
         LED8 := (behind_binaryString env 7 = CHR ''1''))\<rparr>)"
proof -
  have line: "cstr (''AT+LED4'' @ [NUL]) = ''AT+LED4''"
    by (rule cstr_terminated) (simp add: NUL_def)
  show ?thesis
    using process_AT_LED_branch [of "''AT+LED4'' @ [NUL]" env s]
    unfolding line by (simp add: atoi_one_digit format_d_one_digit intToBinaryString_four_bits led_loop_five NUL_def)
qed


text \<open>
  Claim C4 fails on the code: for the buffer holding \<^verbatim>\<open>AT+LCD=Hello\<close> the
  argument is taken from index 6, so the stored string and the formatted text both keep
  the equals sign; the text is left in \<^verbatim>\<open>uart_tx_buf\<close> and the driver's
  \<^verbatim>\<open>Send\<close> is not called.
\<close>

theorem lcd_command_keeps_equals_sign_and_sends_nothing:
  "cstr (storedLCDString (process_AT_command env (''AT+LCD=Hello'' @ [NUL]) initial_state)) = ''=Hello''
   \<and> cstr (uart_tx_buf (process_AT_command env (''AT+LCD=Hello'' @ [NUL]) initial_state))
       = ''LCD string set to: =Hello'' @ [CR, LF]
   \<and> uart_calls (process_AT_command env (''AT+LCD=Hello'' @ [NUL]) initial_state) = []"
proof -
  have line: "cstr (''AT+LCD=Hello'' @ [NUL]) = ''AT+LCD=Hello''"
    by (rule cstr_terminated) (simp add: NUL_def)
  have run: "process_AT_command env (''AT+LCD=Hello'' @ [NUL]) initial_state
      = snprintf_uart_tx_buf (''LCD string set to: =Hello'' @ [CR, LF])
          (storeLCDString ''=Hello'' initial_state)"
    using process_AT_LCD_branch [of "''AT+LCD=Hello'' @ [NUL]" env initial_state]
    unfolding line by simp
  have len: "length (storedLCDString initial_state) = 50"
    by (simp add: initial_state_def)
  have stored: "cstr (storedLCDString (storeLCDString ''=Hello'' initial_state)) = ''=Hello''"
    using cstr_storeLCDString [of "''=Hello''" initial_state, OF _ len]
    by (simp add: NUL_def)
  have calls: "uart_calls (storeLCDString ''=Hello'' initial_state) = []"
    by (simp add: initial_state_def)
  have reply: "cstr (uart_tx_buf (snprintf_uart_tx_buf (''LCD string set to: =Hello'' @ [CR, LF])
          (storeLCDString ''=Hello'' initial_state))) = ''LCD string set to: =Hello'' @ [CR, LF]"
    by (rule cstr_snprintf) (simp_all add: NUL_def CR_def LF_def UART_BUFFER_SIZE_def)
  show ?thesis
    unfolding run
  proof (intro conjI)
    show "cstr (storedLCDString (snprintf_uart_tx_buf (''LCD string set to: =Hello'' @ [CR, LF])
          (storeLCDString ''=Hello'' initial_state))) = ''=Hello''"
      using stored by (simp only: snprintf_keeps)
    show "cstr (uart_tx_buf (snprintf_uart_tx_buf (''LCD string set to: =Hello'' @ [CR, LF])
          (storeLCDString ''=Hello'' initial_state))) = ''LCD string set to: =Hello'' @ [CR, LF]"
      by (rule reply)
    show "uart_calls (snprintf_uart_tx_buf (''LCD string set to: =Hello'' @ [CR, LF])
          (storeLCDString ''=Hello'' initial_state)) = []"
      using calls by (simp only: snprintf_keeps)
  qed
qed

text \<open>
  Claim C6 on the code: for the buffer holding \<^verbatim>\<open>AT+LED5\<close>, from any state, the
  lines LED1 and LED3 are cleared and LED2 and LED4 are set, and the text
  \<^verbatim>\<open>LED value set to: 5\<close> with CR LF is formatted into \<^verbatim>\<open>uart_tx_buf\<close>; the
  driver's \<^verbatim>\<open>Send\<close> is not called, so nothing goes out on the serial line.
\<close>

theorem led5_sets_pattern_but_sends_no_reply:
  "gpio_out (process_AT_command env (''AT+LED5'' @ [NUL]) s) LED1 = False
   \<and> gpio_out (process_AT_command env (''AT+LED5'' @ [NUL]) s) LED2 = True
   \<and> gpio_out (process_AT_command env (''AT+LED5'' @ [NUL]) s) LED3 = False
   \<and> gpio_out (process_AT_command env (''AT+LED5'' @ [NUL]) s) LED4 = True
   \<and> cstr (uart_tx_buf (process_AT_command env (''AT+LED5'' @ [NUL]) s))
       = ''LED value set to: 5'' @ [CR, LF]
   \<and> uart_calls (process_AT_command env (''AT+LED5'' @ [NUL]) s) = uart_calls s"
proof -
  have "cstr (uart_tx_buf (snprintf_uart_tx_buf (''LED value set to: 5'' @ [CR, LF]) s')) 
      = ''LED value set to: 5'' @ [CR, LF]" for s'
    by (rule cstr_snprintf) (simp_all add: NUL_def CR_def LF_def UART_BUFFER_SIZE_def)
  then show ?thesis
    unfolding process_AT_LED5 by (simp add: led_names)
qed


lemma led4_outputs_same_memory:
  "gpio_out (process_AT_command env (''AT+LED4'' @ [NUL])
              (process_AT_command env (''AT+LED4'' @ [NUL]) s))
   = gpio_out (process_AT_command env (''AT+LED4'' @ [NUL]) s)"
  unfolding process_AT_LED4 by (simp add: led_names)


text \<open>
  Claim C8 on the code: the loop reads \<^verbatim>\<open>binaryString[5..7]\<close> behind the 5-byte
  array and drives LED6 to LED8 from those bytes. When the memory there holds the
  character 1 at the first dispatch of \<^verbatim>\<open>AT+LED4\<close> and 0 at the second, LED6 after
  two dispatches differs from LED6 after one.
\<close>

theorem led4_twice_differs_when_memory_behind_array_differs:
  "gpio_out
     (process_AT_command \<lparr>gpio_in = (\<lambda>_. True), adc_value = 0, behind_binaryString = (\<lambda>_. CHR ''0'')\<rparr>
        (''AT+LED4'' @ [NUL])
        (process_AT_command \<lparr>gpio_in = (\<lambda>_. True), adc_value = 0, behind_binaryString = (\<lambda>_. CHR ''1'')\<rparr>
           (''AT+LED4'' @ [NUL]) initial_state)) LED6
   \<noteq> gpio_out
       (process_AT_command \<lparr>gpio_in = (\<lambda>_. True), adc_value = 0, behind_binaryString = (\<lambda>_. CHR ''1'')\<rparr>
          (''AT+LED4'' @ [NUL]) initial_state) LED6"
  unfolding process_AT_LED4 by (simp add: led_names)


section \<open>Properties of the life cycle and the line coding\<close>

text \<open>
  Claim C9, amended: \<^verbatim>\<open>USBD_CDC0_ACM_Uninitialize\<close> leaves
  \<^verbatim>\<open>cdc_acm_line_coding\<close> as it was, whether the thread could be terminated or not.
\<close>

theorem uninitialize_keeps_line_coding:
  "cdc_acm_line_coding (USBD_CDC0_ACM_Uninitialize terminated s) = cdc_acm_line_coding s"
  by (simp add: USBD_CDC0_ACM_Uninitialize_def ptrUART_def Let_def)


text \<open>
  Claim C9, as stated, fails: after a successful request for 115200 baud, 8 data bits, no
  parity and one stop bit, the record is not the zero record after
  \<^verbatim>\<open>USBD_CDC0_ACM_Uninitialize\<close>.
\<close>

theorem line_coding_survives_uninitialize:
  "fst (USBD_CDC0_ACM_SetLineCoding ARM_DRIVER_OK
          \<lparr>dwDTERate = 115200, bCharFormat = 0, bParityType = 0, bDataBits = 8\<rparr> initial_state)
   \<and> cdc_acm_line_coding
        (USBD_CDC0_ACM_Uninitialize True
          (snd (USBD_CDC0_ACM_SetLineCoding ARM_DRIVER_OK
                 \<lparr>dwDTERate = 115200, bCharFormat = 0, bParityType = 0, bDataBits = 8\<rparr>
                 initial_state)))
       \<noteq> line_coding_zero"
  by (simp add: USBD_CDC0_ACM_Uninitialize_def USBD_CDC0_ACM_SetLineCoding_def ptrUART_def Let_def
      stop_bits_of_def parity_of_def data_bits_of_def line_coding_zero_def)


lemma set_line_coding_result:
  "fst (USBD_CDC0_ACM_SetLineCoding status lc s) \<longleftrightarrow>
     stop_bits_of (bCharFormat lc) \<noteq> None \<and> parity_of (bParityType lc) \<noteq> None
     \<and> data_bits_of (bDataBits lc) \<noteq> None \<and> status = ARM_DRIVER_OK"
  by (simp add: USBD_CDC0_ACM_SetLineCoding_def Let_def split: option.splits)

lemma set_line_coding_accepted:
  assumes "fst (USBD_CDC0_ACM_SetLineCoding status lc s)"
  shows "cdc_acm_line_coding (snd (USBD_CDC0_ACM_SetLineCoding status lc s)) = lc
    \<and> uart_rx_cnt (snd (USBD_CDC0_ACM_SetLineCoding status lc s)) = 0
    \<and> usb_tx_cnt (snd (USBD_CDC0_ACM_SetLineCoding status lc s)) = 0"
  using assms
  by (simp add: USBD_CDC0_ACM_SetLineCoding_def ptrUART_def Let_def split: option.splits if_splits)


text \<open>
  Claim C10: when \<^verbatim>\<open>USBD_CDC0_ACM_SetLineCoding\<close> returns false, the stored line
  coding and the two counters are as before the call.
\<close>

theorem rejected_line_coding_changes_nothing:
  assumes "\<not> fst (USBD_CDC0_ACM_SetLineCoding status lc s)"
  shows "cdc_acm_line_coding (snd (USBD_CDC0_ACM_SetLineCoding status lc s)) = cdc_acm_line_coding s
    \<and> uart_rx_cnt (snd (USBD_CDC0_ACM_SetLineCoding status lc s)) = uart_rx_cnt s
    \<and> usb_tx_cnt (snd (USBD_CDC0_ACM_SetLineCoding status lc s)) = usb_tx_cnt s"
  using assms
  by (simp add: USBD_CDC0_ACM_SetLineCoding_def ptrUART_def Let_def split: option.splits if_splits)


text \<open>
  Claim C10 at a request for 9 data bits, with counters 512 and 100: the request is
  rejected, the record stays zero and the counters stay 512 and 100.
\<close>

theorem rejected_line_coding_changes_nothing_witness:
  "\<not> fst (USBD_CDC0_ACM_SetLineCoding ARM_DRIVER_OK
            \<lparr>dwDTERate = 9600, bCharFormat = 0, bParityType = 0, bDataBits = 9\<rparr>
            (initial_state\<lparr>uart_rx_cnt := 512, usb_tx_cnt := 100\<rparr>))
   \<and> cdc_acm_line_coding (snd (USBD_CDC0_ACM_SetLineCoding ARM_DRIVER_OK
            \<lparr>dwDTERate = 9600, bCharFormat = 0, bParityType = 0, bDataBits = 9\<rparr>
            (initial_state\<lparr>uart_rx_cnt := 512, usb_tx_cnt := 100\<rparr>))) = line_coding_zero
   \<and> uart_rx_cnt (snd (USBD_CDC0_ACM_SetLineCoding ARM_DRIVER_OK
            \<lparr>dwDTERate = 9600, bCharFormat = 0, bParityType = 0, bDataBits = 9\<rparr>
            (initial_state\<lparr>uart_rx_cnt := 512, usb_tx_cnt := 100\<rparr>))) = 512
   \<and> usb_tx_cnt (snd (USBD_CDC0_ACM_SetLineCoding ARM_DRIVER_OK
            \<lparr>dwDTERate = 9600, bCharFormat = 0, bParityType = 0, bDataBits = 9\<rparr>
            (initial_state\<lparr>uart_rx_cnt := 512, usb_tx_cnt := 100\<rparr>))) = 100"
  using rejected_line_coding_changes_nothing [of ARM_DRIVER_OK
      "\<lparr>dwDTERate = 9600, bCharFormat = 0, bParityType = 0, bDataBits = 9\<rparr>"
      "initial_state\<lparr>uart_rx_cnt := 512, usb_tx_cnt := 100\<rparr>"]
  by (simp add: set_line_coding_result data_bits_of_def initial_state_def)


end
